theory Spec2Isabelle
  imports Main "HOL-Library.Finite_Map"
begin

section \<open>Intermediate model (package model)\<close>

text \<open>
  \<^verbatim>\<open>type TypeKind string\<close> with its nine declared constants. The kind stays a
  string, as in the source, so that a zero-valued kind (the empty string) is a value too.
\<close>

type_synonym TypeKind = string

abbreviation KindStruct :: TypeKind where "KindStruct \<equiv> ''struct''"
abbreviation KindAlias :: TypeKind where "KindAlias \<equiv> ''alias''"
abbreviation KindNamed :: TypeKind where "KindNamed \<equiv> ''named''"
abbreviation KindBasic :: TypeKind where "KindBasic \<equiv> ''basic''"
abbreviation KindSlice :: TypeKind where "KindSlice \<equiv> ''slice''"
abbreviation KindArray :: TypeKind where "KindArray \<equiv> ''array''"
abbreviation KindMap :: TypeKind where "KindMap \<equiv> ''map''"
abbreviation KindPointer :: TypeKind where "KindPointer \<equiv> ''pointer''"
abbreviation KindInterface :: TypeKind where "KindInterface \<equiv> ''interface''"

text \<open>
  \<^verbatim>\<open>model.TypeRef\<close>: the fields in the order of the struct (Kind, Name, Package, Elem,
  Key, Value, Raw). The three pointer fields are options, \<open>None\<close> for \<^verbatim>\<open>nil\<close>; the
  references built by the parser are trees, which is what a datatype holds.
\<close>

datatype TypeRef =
  TypeRef (refKind: TypeKind) (refName: string) (refPackage: string)
          (refElem: "TypeRef option") (refKey: "TypeRef option") (refValue: "TypeRef option")
          (refRaw: string)

text \<open>\<^verbatim>\<open>model.StructTag\<close>; the Go map of tag values is a finite map.\<close>

record StructTag =
  tagRaw :: string
  tagValues :: "(string, string) fmap"

text \<open>\<^verbatim>\<open>model.Field\<close>.\<close>

record Field =
  fldName :: string
  fldType :: TypeRef
  fldTag :: StructTag
  fldDoc :: string
  fldIsExported :: bool
  fldIsEmbedded :: bool

text \<open>\<^verbatim>\<open>model.Type\<close>, a type declaration.\<close>

record Type =
  typName :: string
  typKind :: TypeKind
  typDoc :: string
  typFields :: "Field list"
  typUnderlying :: "TypeRef option"
  typIsExported :: bool

section \<open>Configuration (package config)\<close>

record Options =
  PerType :: bool
  ExportedOnly :: bool
  TagKey :: string
  IncludeTypes :: "string list"
  ExcludeTypes :: "string list"

text \<open>
  \<^verbatim>\<open>config.Config\<close>. A Go map value is either \<^verbatim>\<open>nil\<close> (\<open>None\<close>) or a table; reading a
  nil map finds nothing, writing to it panics.
\<close>

record Config =
  TypeMappings :: "(string, string) fmap option"
  cfgOptions :: Options

datatype error = NilMapWrite

text \<open>\<^verbatim>\<open>DefaultOptions\<close>; the two slices are left nil, which is the empty list.\<close>

definition DefaultOptions :: Options where
  "DefaultOptions =
     \<lparr>PerType = False, ExportedOnly = True, TagKey = ''json'',
      IncludeTypes = [], ExcludeTypes = []\<rparr>"

text \<open>\<^verbatim>\<open>DefaultTypeMappings\<close> and \<^verbatim>\<open>New\<close>.\<close>

definition DefaultTypeMappings :: "(string, string) fmap" where
  "DefaultTypeMappings = fmap_of_list
     [(''string'', ''string''), (''bool'', ''boolean''), (''int'', ''number''),
      (''int8'', ''number''), (''int16'', ''number''), (''int32'', ''number''),
      (''int64'', ''number''), (''uint'', ''number''), (''uint8'', ''number''),
      (''uint16'', ''number''), (''uint32'', ''number''), (''uint64'', ''number''),
      (''float32'', ''number''), (''float64'', ''number''), (''complex64'', ''number''),
      (''complex128'', ''number''), (''byte'', ''number''), (''rune'', ''number''),
      (''uintptr'', ''number''),
      (''[]byte'', ''string''), (''time.Time'', ''string''), (''time.Duration'', ''number''),
      (''interface{}'', ''unknown''), (''any'', ''unknown''), (''error'', ''string''),
      (''uuid.UUID'', ''string''), (''github.com/google/uuid.UUID'', ''string''),
      (''github.com/gofrs/uuid.UUID'', ''string''),
      (''github.com/satori/go.uuid.UUID'', ''string''),
      (''decimal.Decimal'', ''string''),
      (''github.com/shopspring/decimal.Decimal'', ''string''),
      (''json.RawMessage'', ''unknown'')]"

definition New :: Config where
  "New = \<lparr>TypeMappings = Some DefaultTypeMappings, cfgOptions = DefaultOptions\<rparr>"

text \<open>
  \<^verbatim>\<open>merge\<close>. The loop over the loaded table writes every loaded entry into the
  receiver's table: nothing happens when the loaded table is nil or empty, and the first
  write panics when the receiver's table is nil. The options follow, in the order of the
  source.
\<close>

definition mergeMappings ::
  "(string, string) fmap option \<Rightarrow> (string, string) fmap option
     \<Rightarrow> error + (string, string) fmap option" where
  "mergeMappings cur loaded =
     (case loaded of
        None \<Rightarrow> Inr cur
      | Some l \<Rightarrow>
          if l = fmempty then Inr cur
          else (case cur of
                  None \<Rightarrow> Inl NilMapWrite
                | Some m \<Rightarrow> Inr (Some (fmadd m l))))"

definition mergeOptions :: "Options \<Rightarrow> Options \<Rightarrow> Options" where
  "mergeOptions cur loaded =
     (let o1 = (if TagKey loaded \<noteq> '''' then cur\<lparr>TagKey := TagKey loaded\<rparr> else cur);
          o2 = (if PerType loaded then o1\<lparr>PerType := True\<rparr> else o1);
          o3 = o2\<lparr>ExportedOnly := ExportedOnly loaded\<rparr>;
          o4 = o3\<lparr>IncludeTypes := IncludeTypes loaded\<rparr>
      in o4\<lparr>ExcludeTypes := ExcludeTypes loaded\<rparr>)"

definition merge :: "Config \<Rightarrow> Config \<Rightarrow> error + Config" where
  "merge c loaded =
     (case mergeMappings (TypeMappings c) (TypeMappings loaded) of
        Inl e \<Rightarrow> Inl e
      | Inr tm \<Rightarrow>
          Inr \<lparr>TypeMappings = tm,
               cfgOptions = mergeOptions (cfgOptions c) (cfgOptions loaded)\<rparr>)"

text \<open>\<^verbatim>\<open>(*Config).MapType\<close>: the table's entry, or the key itself.\<close>

definition MapType :: "Config \<Rightarrow> string \<Rightarrow> string" where
  "MapType c goType =
     (case TypeMappings c of
        None \<Rightarrow> goType
      | Some m \<Rightarrow> (case fmlookup m goType of Some mapped \<Rightarrow> mapped | None \<Rightarrow> goType))"

text \<open>
  \<^verbatim>\<open>(*Config).ShouldIncludeType\<close>. Its two loops: the search of the include list,
  which sets \<^verbatim>\<open>found\<close> and breaks, and the search of the exclude list, which returns
  false at the first hit.
\<close>

primrec includeLoop :: "string list \<Rightarrow> string \<Rightarrow> bool" where
  "includeLoop [] name = False"
| "includeLoop (t # ts) name = (if t = name then True else includeLoop ts name)"

primrec excludeLoop :: "string list \<Rightarrow> string \<Rightarrow> bool" where
  "excludeLoop [] name = True"
| "excludeLoop (t # ts) name = (if t = name then False else excludeLoop ts name)"

definition ShouldIncludeType :: "Config \<Rightarrow> string \<Rightarrow> bool \<Rightarrow> bool" where
  "ShouldIncludeType c name isExported =
     (if ExportedOnly (cfgOptions c) \<and> \<not> isExported then False
      else if length (IncludeTypes (cfgOptions c)) > 0
              \<and> \<not> includeLoop (IncludeTypes (cfgOptions c)) name then False
      else excludeLoop (ExcludeTypes (cfgOptions c)) name)"

section \<open>Library functions of package strings\<close>

text \<open>
  Go strings are byte sequences; a \<open>string\<close> here is the list of those bytes. The
  library functions below are the ones the repository calls, on the separators it
  passes (one ASCII byte each). \<open>TrimSpace\<close> removes the six ASCII white-space bytes
  \<^verbatim>\<open>\t \n \v \f \r\<close> and the blank; the multi-byte Unicode spaces that Go also trims
  (U+0085, U+00A0, ...) are outside this model, which is exact on ASCII text.
\<close>

definition isSpace :: "char \<Rightarrow> bool" where
  "isSpace c \<longleftrightarrow> c \<in> set [CHR 0x09, CHR 0x0A, CHR 0x0B, CHR 0x0C, CHR 0x0D, CHR 0x20]"

definition TrimSpace :: "string \<Rightarrow> string" where
  "TrimSpace s = rev (dropWhile isSpace (rev (dropWhile isSpace s)))"

text \<open>\<^verbatim>\<open>strings.Trim(s, cutset)\<close> for a cutset of ASCII bytes.\<close>

definition Trim :: "string \<Rightarrow> string \<Rightarrow> string" where
  "Trim s cutset =
     rev (dropWhile (\<lambda>c. c \<in> set cutset) (rev (dropWhile (\<lambda>c. c \<in> set cutset) s)))"

text \<open>
  \<^verbatim>\<open>strings.Split(s, sep)\<close> for a separator of one byte: the pieces between the
  separators, one more than there are separators (so the empty string gives one empty
  piece).
\<close>

fun Split :: "string \<Rightarrow> char \<Rightarrow> string list" where
  "Split [] sep = ['''']"
| "Split (c # cs) sep =
     (if c = sep then [] # Split cs sep
      else (case Split cs sep of
              [] \<Rightarrow> [c # '''']
            | p # ps \<Rightarrow> (c # p) # ps))"

text \<open>
  \<^verbatim>\<open>strings.Index(s, substr)\<close> for a substring of one byte: the position of its
  first occurrence, or -1.
\<close>

fun Index :: "string \<Rightarrow> char \<Rightarrow> int" where
  "Index [] b = - 1"
| "Index (c # cs) b =
     (if c = b then 0
      else (let i = Index cs b in if i < 0 then - 1 else i + 1))"

section \<open>Source-model extractor (package parser)\<close>

text \<open>
  The type expressions of \<^verbatim>\<open>go/ast\<close> that \<^verbatim>\<open>typeRefFromExpr\<close> tells apart. An array
  type carries its optional length expression. \<open>OtherExpr\<close> stands for every other node
  type and for a nil expression: the type switch sends all of them to its default arm.
\<close>

datatype Expr =
    Ident string
  | SelectorExpr Expr string
  | StarExpr Expr
  | ArrayType "Expr option" Expr
  | AstMapType Expr Expr
  | InterfaceType
  | ChanType Expr
  | FuncType
  | Ellipsis Expr
  | OtherExpr

text \<open>
  \<^verbatim>\<open>ast.Field\<close>, an entry of a struct's field list: the bound names, the type
  expression, the tag literal's text (\<open>None\<close> for nil) and the text of the doc comment
  group (\<open>None\<close> for nil).
\<close>

record AstField =
  astNames :: "string list"
  astType :: Expr
  astTag :: "string option"
  astDoc :: "string option"

text \<open>
  \<^verbatim>\<open>ast.IsExported\<close>: the first letter is upper case (ASCII letters; the empty name is
  not exported).
\<close>

definition IsExported :: "string \<Rightarrow> bool" where
  "IsExported name =
     (case name of
        [] \<Rightarrow> False
      | c # _ \<Rightarrow> (65::nat) \<le> of_char c \<and> of_char c \<le> (90::nat))"

text \<open>\<^verbatim>\<open>typeRefFromExpr\<close>, one equation for each arm of the type switch.\<close>

fun typeRefFromExpr :: "Expr \<Rightarrow> TypeRef" where
  "typeRefFromExpr (Ident name) =
     TypeRef KindBasic name '''' None None None name"
| "typeRefFromExpr (SelectorExpr x sel) =
     (let pkg = (case x of Ident name \<Rightarrow> name | _ \<Rightarrow> '''')
      in TypeRef KindNamed sel pkg None None None (pkg @ ''.'' @ sel))"
| "typeRefFromExpr (StarExpr x) =
     (let elem = typeRefFromExpr x
      in TypeRef KindPointer '''' '''' (Some elem) None None (''*'' @ refRaw elem))"
| "typeRefFromExpr (ArrayType len elt) =
     (let elem = typeRefFromExpr elt
      in if len = None
         then TypeRef KindSlice '''' '''' (Some elem) None None (''[]'' @ refRaw elem)
         else TypeRef KindArray '''' '''' (Some elem) None None (''[...]'' @ refRaw elem))"
| "typeRefFromExpr (AstMapType k v) =
     (let key = typeRefFromExpr k;
          val = typeRefFromExpr v
      in TypeRef KindMap '''' '''' None (Some key) (Some val)
           (''map['' @ refRaw key @ '']'' @ refRaw val))"
| "typeRefFromExpr InterfaceType =
     TypeRef KindInterface ''interface{}'' '''' None None None ''interface{}''"
| "typeRefFromExpr (ChanType v) =
     (let elem = typeRefFromExpr v
      in TypeRef KindBasic ''chan'' '''' (Some elem) None None (''chan '' @ refRaw elem))"
| "typeRefFromExpr FuncType =
     TypeRef KindBasic ''func'' '''' None None None ''func''"
| "typeRefFromExpr (Ellipsis elt) =
     (let elem = typeRefFromExpr elt
      in TypeRef KindSlice '''' '''' (Some elem) None None (''...'' @ refRaw elem))"
| "typeRefFromExpr OtherExpr =
     TypeRef KindBasic ''unknown'' '''' None None None ''unknown''"

text \<open>
  \<^verbatim>\<open>parseTag\<close>. \<^verbatim>\<open>reflect.StructTag.Lookup\<close> is the standard library's; it is the
  parameter \<open>Lookup\<close> (tag text, key, the value when the key is present). The loop over
  the eight recognised keys stores each value found.
\<close>

definition recognisedKeys :: "string list" where
  "recognisedKeys =
     [''json'', ''yaml'', ''xml'', ''db'', ''form'', ''validate'', ''binding'', ''bson'']"

definition parseTag ::
  "(string \<Rightarrow> string \<Rightarrow> string option) \<Rightarrow> string option \<Rightarrow> StructTag" where
  "parseTag Lookup lit =
     (case lit of
        None \<Rightarrow> \<lparr>tagRaw = '''', tagValues = fmempty\<rparr>
      | Some v \<Rightarrow>
          (let raw = Trim v [CHR 0x60];
               values = fold (\<lambda>key m. case Lookup raw key of
                                         Some x \<Rightarrow> fmupd key x m
                                       | None \<Rightarrow> m)
                             recognisedKeys fmempty
           in \<lparr>tagRaw = raw, tagValues = values\<rparr>))"

text \<open>\<^verbatim>\<open>commentText\<close>; the argument is the comment group's text, \<open>None\<close> for nil.\<close>

definition commentText :: "string option \<Rightarrow> string" where
  "commentText cg = (case cg of None \<Rightarrow> '''' | Some txt \<Rightarrow> TrimSpace txt)"

text \<open>
  \<^verbatim>\<open>extractFields\<close>. \<open>fieldsOfEntry\<close> is the body of its loop: the fields appended for
  one entry of the field list, one embedded field when the entry binds no name and one
  field for each bound name otherwise.
\<close>

definition fieldsOfEntry ::
  "(string \<Rightarrow> string \<Rightarrow> string option) \<Rightarrow> AstField \<Rightarrow> Field list" where
  "fieldsOfEntry Lookup f =
     (let typeRef = typeRefFromExpr (astType f);
          tag = parseTag Lookup (astTag f);
          doc = commentText (astDoc f)
      in if length (astNames f) = 0
         then [\<lparr>fldName = refName typeRef, fldType = typeRef, fldTag = tag, fldDoc = doc,
                 fldIsExported = IsExported (refName typeRef), fldIsEmbedded = True\<rparr>]
         else map (\<lambda>name. \<lparr>fldName = name, fldType = typeRef, fldTag = tag, fldDoc = doc,
                            fldIsExported = IsExported name, fldIsEmbedded = False\<rparr>)
                  (astNames f))"

primrec extractLoop ::
  "(string \<Rightarrow> string \<Rightarrow> string option) \<Rightarrow> AstField list \<Rightarrow> Field list" where
  "extractLoop Lookup [] = []"
| "extractLoop Lookup (f # fs) = fieldsOfEntry Lookup f @ extractLoop Lookup fs"

definition extractFields ::
  "(string \<Rightarrow> string \<Rightarrow> string option) \<Rightarrow> AstField list option \<Rightarrow> Field list" where
  "extractFields Lookup fieldList =
     (case fieldList of None \<Rightarrow> [] | Some l \<Rightarrow> extractLoop Lookup l)"

section \<open>Resolution and flattening engine (package generator)\<close>

text \<open>
  \<^verbatim>\<open>mapType\<close>: the three table lookups, each taken only when the table's answer
  differs from the key, then the switch on the kind. An arm of the switch whose inner
  test fails leaves the switch, and the type name is returned.
\<close>

fun mapType :: "Config \<Rightarrow> TypeRef \<Rightarrow> string" where
  "mapType cfg (TypeRef kind name package elem key val raw) =
     (if MapType cfg raw \<noteq> raw then MapType cfg raw
      else if package \<noteq> '''' \<and> MapType cfg (package @ ''.'' @ name) \<noteq> package @ ''.'' @ name
      then MapType cfg (package @ ''.'' @ name)
      else if MapType cfg name \<noteq> name then MapType cfg name
      else if kind = KindSlice \<or> kind = KindArray
      then (case elem of
              Some e \<Rightarrow> mapType cfg e @ ''[]''
            | None \<Rightarrow> name)
      else if kind = KindMap
      then (case key of
              Some k \<Rightarrow>
                (case val of
                   Some v \<Rightarrow> ''Record<'' @ mapType cfg k @ '', '' @ mapType cfg v @ ''>''
                 | None \<Rightarrow> name)
            | None \<Rightarrow> name)
      else if kind = KindPointer
      then (case elem of
              Some e \<Rightarrow> mapType cfg e @ '' | null''
            | None \<Rightarrow> name)
      else if kind = KindInterface then ''unknown''
      else name)"

text \<open>
  \<^verbatim>\<open>filterTypes\<close>: the declarations the configuration includes, in order.
\<close>

primrec filterTypes :: "Config \<Rightarrow> Type list \<Rightarrow> Type list" where
  "filterTypes cfg [] = []"
| "filterTypes cfg (t # ts) =
     (if ShouldIncludeType cfg (typName t) (typIsExported t)
      then t # filterTypes cfg ts
      else filterTypes cfg ts)"

text \<open>
  The name an embedded field is resolved to (the first lines of the loop body of
  \<^verbatim>\<open>flattenFields\<close>): the name of the field's type, or of its element when that name
  is empty and there is an element (a pointer to the embedded type).
\<close>

definition embeddedTypeName :: "Field \<Rightarrow> string" where
  "embeddedTypeName f =
     (let typeName = refName (fldType f)
      in if typeName = '''' \<and> refElem (fldType f) \<noteq> None
         then refName (the (refElem (fldType f)))
         else typeName)"

text \<open>
  \<^verbatim>\<open>flattenFields\<close>. The map \<^verbatim>\<open>seen\<close> is shared by every call of one flattening and
  is written in place, so the model takes the set of names marked in it and returns it
  with the fields. A name marked before a failed lookup stays marked; a name marked before
  a recursive call is deleted after it.
\<close>

function flattenFields ::
  "Field list \<Rightarrow> (string, Type) fmap \<Rightarrow> string set \<Rightarrow> Field list \<times> string set" where
  "flattenFields [] typeMap seen = ([], seen)"
| "flattenFields (f # fs) typeMap seen =
     (if \<not> fldIsEmbedded f
      then (case flattenFields fs typeMap seen of
              (rest, seen') \<Rightarrow> (f # rest, seen'))
      else if embeddedTypeName f \<in> seen
      then flattenFields fs typeMap seen
      else (case fmlookup typeMap (embeddedTypeName f) of
              None \<Rightarrow> flattenFields fs typeMap (insert (embeddedTypeName f) seen)
            | Some embeddedType \<Rightarrow>
                if typKind embeddedType \<noteq> KindStruct
                then flattenFields fs typeMap (insert (embeddedTypeName f) seen)
                else (case flattenFields (typFields embeddedType) typeMap
                             (insert (embeddedTypeName f) seen) of
                        (embeddedFields, seen1) \<Rightarrow>
                          (case flattenFields fs typeMap (seen1 - {embeddedTypeName f}) of
                             (rest, seen2) \<Rightarrow> (embeddedFields @ rest, seen2)))))"
  by pat_completeness auto

text \<open>
  Termination. The calls are nested: the fields after an embedded record are flattened
  with the marks its flattening left. Wherever the function is defined, the marks it
  returns contain those it was given, so along every call either the names of the table
  that are not marked become fewer, or they do not grow and the field list gets shorter.
\<close>

lemma flattenFields_dom_seen:
  "flattenFields_dom (fs, typeMap, seen) \<Longrightarrow> seen \<subseteq> snd (flattenFields fs typeMap seen)"
proof (induction fs typeMap seen rule: flattenFields.pinduct)
  case (1 typeMap seen)
  then show ?case by (simp add: flattenFields.psimps)
next
  case (2 f fs typeMap seen)
  note dom = 2(1)
  show ?case
  proof (cases "fldIsEmbedded f")
    case False
    with 2(2) dom show ?thesis
      by (auto simp: flattenFields.psimps split: prod.splits)
  next
    case emb: True
    show ?thesis
    proof (cases "embeddedTypeName f \<in> seen")
      case True
      with emb 2(3) dom show ?thesis
        by (simp add: flattenFields.psimps)
    next
      case notseen: False
      show ?thesis
      proof (cases "fmlookup typeMap (embeddedTypeName f)")
        case None
        with emb notseen 2(4) dom show ?thesis
          by (auto simp: flattenFields.psimps)
      next
        case (Some T)
        show ?thesis
        proof (cases "typKind T = KindStruct")
          case False
          with Some emb notseen 2(5)[of T] dom show ?thesis
            by (auto simp: flattenFields.psimps)
        next
          case True
          obtain ef s1 where inner:
            "flattenFields (typFields T) typeMap (insert (embeddedTypeName f) seen) = (ef, s1)"
            by (cases "flattenFields (typFields T) typeMap (insert (embeddedTypeName f) seen)")
          obtain rest s2 where outer:
            "flattenFields fs typeMap (s1 - {embeddedTypeName f}) = (rest, s2)"
            by (cases "flattenFields fs typeMap (s1 - {embeddedTypeName f})")
          from emb have emb': "\<not> \<not> fldIsEmbedded f" by simp
          from True have str': "\<not> typKind T \<noteq> KindStruct" by simp
          from 2(6)[OF emb' notseen Some str'] inner
          have a: "insert (embeddedTypeName f) seen \<subseteq> s1" by simp
          from 2(7)[OF emb' notseen Some str' inner[symmetric]] outer
          have b: "s1 - {embeddedTypeName f} \<subseteq> s2" by simp
          from a b notseen have "seen \<subseteq> s2" by auto
          with Some emb notseen True inner outer dom show ?thesis
            by (simp add: flattenFields.psimps)
        qed
      qed
    qed
  qed
qed

lemma flattenFields_total: "All flattenFields_dom"
proof (relation "measures [\<lambda>(fs, typeMap, seen). card (fmdom' typeMap - seen),
                            \<lambda>(fs, typeMap, seen). length fs]", goal_cases)
  case 1
  show ?case by simp
next
  case (2 f fs typeMap seen)
  show ?case by simp
next
  case (3 f fs typeMap seen)
  show ?case by simp
next
  case (4 f fs typeMap seen)
  have "card (fmdom' typeMap - insert (embeddedTypeName f) seen)
          \<le> card (fmdom' typeMap - seen)"
    by (intro card_mono) auto
  then show ?case by auto
next
  case (5 f fs typeMap seen x2)
  have "card (fmdom' typeMap - insert (embeddedTypeName f) seen)
          \<le> card (fmdom' typeMap - seen)"
    by (intro card_mono) auto
  then show ?case by auto
next
  case (6 f fs typeMap seen x2)
  then have "embeddedTypeName f \<in> fmdom' typeMap - seen"
    by (auto intro: fmdom'I)
  then have "card (fmdom' typeMap - insert (embeddedTypeName f) seen)
               < card (fmdom' typeMap - seen)"
    by (intro psubset_card_mono) auto
  then show ?case by simp
next
  case (7 f fs typeMap seen T ef s1)
  from 7 have dom: "flattenFields_dom (typFields T, typeMap, insert (embeddedTypeName f) seen)"
    by simp
  from 7 have res: "snd (flattenFields (typFields T) typeMap (insert (embeddedTypeName f) seen)) = s1"
    by (auto dest: sym)
  from 7 have notseen: "embeddedTypeName f \<notin> seen" by simp
  from flattenFields_dom_seen[OF dom] res
  have "insert (embeddedTypeName f) seen \<subseteq> s1" by simp
  with notseen have "seen \<subseteq> s1 - {embeddedTypeName f}" by auto
  then have "card (fmdom' typeMap - (s1 - {embeddedTypeName f}))
               \<le> card (fmdom' typeMap - seen)"
    by (intro card_mono) auto
  then show ?case by auto
qed

termination flattenFields
  by (rule flattenFields_total)

text \<open>
  \<^verbatim>\<open>flattenEmbedded\<close>: every record declaration gets its fields flattened, each with a
  fresh, empty \<^verbatim>\<open>seen\<close> map; the other declarations pass unchanged.
\<close>

primrec flattenEmbedded :: "Type list \<Rightarrow> (string, Type) fmap \<Rightarrow> Type list" where
  "flattenEmbedded [] typeMap = []"
| "flattenEmbedded (t # ts) typeMap =
     (if typKind t \<noteq> KindStruct
      then t # flattenEmbedded ts typeMap
      else t\<lparr>typFields := fst (flattenFields (typFields t) typeMap {})\<rparr>
             # flattenEmbedded ts typeMap)"

text \<open>\<^verbatim>\<open>model.Import\<close> and \<^verbatim>\<open>model.File\<close>.\<close>

record Import =
  impAlias :: string
  impPath :: string

record File =
  filPackage :: string
  filPath :: string
  filTypes :: "Type list"
  filImports :: "Import list"

text \<open>
  \<^verbatim>\<open>Generate\<close>, up to the execution of the template (which is the template engine's):
  the table of declarations by name, written in the order of the file so that a later
  declaration of a name replaces an earlier one, and the declarations handed to the
  template.
\<close>

definition buildTypeMap :: "Type list \<Rightarrow> (string, Type) fmap" where
  "buildTypeMap types = fold (\<lambda>t typeMap. fmupd (typName t) t typeMap) types fmempty"

definition GenerateTypes :: "Config \<Rightarrow> File \<Rightarrow> Type list" where
  "GenerateTypes cfg file =
     (let types = filterTypes cfg (filTypes file);
          typeMap = buildTypeMap (filTypes file)
      in flattenEmbedded types typeMap)"

text \<open>
  \<^verbatim>\<open>ValidateRule\<close> and \<^verbatim>\<open>parseValidateTag\<close>. \<open>rulesLoop\<close> is the loop over the pieces
  of the tag value: a piece is trimmed, skipped when empty, and cut at its first
  \<^verbatim>\<open>=\<close> when that is not its first byte.
\<close>

record ValidateRule =
  ruleName :: string
  ruleValue :: string

primrec rulesLoop :: "string list \<Rightarrow> ValidateRule list" where
  "rulesLoop [] = []"
| "rulesLoop (p # ps) =
     (let part = TrimSpace p
      in if part = '''' then rulesLoop ps
         else (let idx = Index part CHR ''=''
               in if idx > 0
                  then \<lparr>ruleName = take (nat idx) part,
                        ruleValue = drop (nat (idx + 1)) part\<rparr> # rulesLoop ps
                  else \<lparr>ruleName = part, ruleValue = ''''\<rparr> # rulesLoop ps))"

definition parseValidateTag :: "Field \<Rightarrow> ValidateRule list" where
  "parseValidateTag field =
     (case fmlookup (tagValues (fldTag field)) ''validate'' of
        None \<Rightarrow> []
      | Some tagValue \<Rightarrow>
          if tagValue = '''' then []
          else rulesLoop (Split tagValue CHR '',''))"

section \<open>Notions of the specification\<close>

text \<open>
  A name resolves when the table of declarations holds a record under it. Only such a
  name leads \<open>flattenFields\<close> into a recursive call.
\<close>

definition resolves :: "(string, Type) fmap \<Rightarrow> string \<Rightarrow> bool" where
  "resolves typeMap n \<longleftrightarrow>
     (case fmlookup typeMap n of None \<Rightarrow> False | Some T \<Rightarrow> typKind T = KindStruct)"

text \<open>
  What the specification puts in the place of one field: the field itself when it is not
  embedded; nothing when its name is on the current path, is not declared or is not a
  record; otherwise the flattened fields of the embedded record, its name added to the
  path.
\<close>

definition slotFields :: "(string, Type) fmap \<Rightarrow> string set \<Rightarrow> Field \<Rightarrow> Field list" where
  "slotFields typeMap seen f =
     (if \<not> fldIsEmbedded f then [f]
      else if embeddedTypeName f \<in> seen then []
      else (case fmlookup typeMap (embeddedTypeName f) of
              None \<Rightarrow> []
            | Some T \<Rightarrow>
                if typKind T \<noteq> KindStruct then []
                else fst (flattenFields (typFields T) typeMap (insert (embeddedTypeName f) seen))))"

text \<open>
  The annotation mini-language, as written: a rule is a name, or a name, \<^verbatim>\<open>=\<close> and a
  value; rules are joined by commas. \<open>ruleOf\<close> is the rule a written rule stands for. A
  written rule is well formed when its name is not empty, holds neither comma nor
  \<^verbatim>\<open>=\<close> and does not start with white space, its value holds no comma, and the
  written text does not end with white space; the text is ASCII.
\<close>

fun writeRule :: "string \<times> string option \<Rightarrow> string" where
  "writeRule (name, None) = name"
| "writeRule (name, Some v) = name @ ''='' @ v"

fun joinComma :: "string list \<Rightarrow> string" where
  "joinComma [] = ''''"
| "joinComma [p] = p"
| "joinComma (p # q # ps) = p @ '','' @ joinComma (q # ps)"

fun ruleOf :: "string \<times> string option \<Rightarrow> ValidateRule" where
  "ruleOf (name, None) = \<lparr>ruleName = name, ruleValue = ''''\<rparr>"
| "ruleOf (name, Some v) = \<lparr>ruleName = name, ruleValue = v\<rparr>"

definition ascii :: "string \<Rightarrow> bool" where
  "ascii s \<longleftrightarrow> (\<forall>c \<in> set s. of_char c < (128::nat))"

fun wellFormedRule :: "string \<times> string option \<Rightarrow> bool" where
  "wellFormedRule (name, None) \<longleftrightarrow>
     name \<noteq> '''' \<and> ascii name \<and> CHR '','' \<notin> set name \<and> CHR ''='' \<notin> set name
     \<and> \<not> isSpace (hd name) \<and> \<not> isSpace (last name)"
| "wellFormedRule (name, Some v) \<longleftrightarrow>
     name \<noteq> '''' \<and> ascii name \<and> CHR '','' \<notin> set name \<and> CHR ''='' \<notin> set name
     \<and> \<not> isSpace (hd name)
     \<and> ascii v \<and> CHR '','' \<notin> set v \<and> (v \<noteq> '''' \<longrightarrow> \<not> isSpace (last v))"

section \<open>Example inputs\<close>

text \<open>
  A named field of type \<^verbatim>\<open>int\<close>, the field the extractor makes of an embedded type
  expression without tag or comment, and a record declaration.
\<close>

definition plainField :: "string \<Rightarrow> Field" where
  "plainField name =
     \<lparr>fldName = name, fldType = TypeRef KindBasic ''int'' '''' None None None ''int'',
      fldTag = \<lparr>tagRaw = '''', tagValues = fmempty\<rparr>, fldDoc = '''',
      fldIsExported = IsExported name, fldIsEmbedded = False\<rparr>"

definition embeddedField :: "Expr \<Rightarrow> Field" where
  "embeddedField e =
     hd (fieldsOfEntry (\<lambda>raw key. None)
           \<lparr>astNames = [], astType = e, astTag = None, astDoc = None\<rparr>)"

definition recordDecl :: "string \<Rightarrow> Field list \<Rightarrow> Type" where
  "recordDecl name flds =
     \<lparr>typName = name, typKind = KindStruct, typDoc = '''', typFields = flds,
      typUnderlying = None, typIsExported = IsExported name\<rparr>"

text \<open>
  \<^verbatim>\<open>type R struct { A; plainB int; *C }\<close> with \<^verbatim>\<open>A { x, y int }\<close> and
  \<^verbatim>\<open>C { z int }\<close>.
\<close>

definition orderTypes :: "Type list" where
  "orderTypes =
     [recordDecl ''R'' [embeddedField (Ident ''A''), plainField ''plainB'',
                        embeddedField (StarExpr (Ident ''C''))],
      recordDecl ''A'' [plainField ''x'', plainField ''y''],
      recordDecl ''C'' [plainField ''z'']]"

text \<open>An embedding cycle: \<^verbatim>\<open>A { B; a int }\<close> and \<^verbatim>\<open>B { *A; b int }\<close>.\<close>

definition cycleTypes :: "Type list" where
  "cycleTypes =
     [recordDecl ''A'' [embeddedField (Ident ''B''), plainField ''a''],
      recordDecl ''B'' [embeddedField (StarExpr (Ident ''A'')), plainField ''b'']]"

text \<open>An exported record that embeds an unexported one.\<close>

definition filterFile :: File where
  "filterFile =
     \<lparr>filPackage = ''models'', filPath = ''models.go'',
      filTypes = [recordDecl ''User'' [embeddedField (Ident ''base''), plainField ''Name''],
                  recordDecl ''base'' [plainField ''ID'']],
      filImports = []\<rparr>"

text \<open>The mapping table of the priority example, on the default options.\<close>

definition decimalCfg :: Config where
  "decimalCfg =
     \<lparr>TypeMappings = Some (fmap_of_list [(''pkg.Decimal'', ''string-a''),
                                           (''Decimal'', ''string-b'')]),
      cfgOptions = DefaultOptions\<rparr>"

text \<open>An override document that sets nothing: every field has its zero value.\<close>

definition overrideDoc :: Config where
  "overrideDoc =
     \<lparr>TypeMappings = None,
      cfgOptions = \<lparr>PerType = False, ExportedOnly = False, TagKey = '''',
                    IncludeTypes = [], ExcludeTypes = []\<rparr>\<rparr>"

text \<open>Exported-only, with \<^verbatim>\<open>User\<close> both included and excluded.\<close>

definition gateCfg :: Config where
  "gateCfg =
     \<lparr>TypeMappings = Some DefaultTypeMappings,
      cfgOptions = \<lparr>PerType = False, ExportedOnly = True, TagKey = ''json'',
                    IncludeTypes = [''User''], ExcludeTypes = [''User'']\<rparr>\<rparr>"

text \<open>A field tagged \<^verbatim>\<open>validate:"required,min=1,max=45"\<close>.\<close>

definition validatedField :: Field where
  "validatedField =
     \<lparr>fldName = ''Name'', fldType = TypeRef KindBasic ''string'' '''' None None None ''string'',
      fldTag = \<lparr>tagRaw = ''validate:\"required,min=1,max=45\"'',
                tagValues = fmupd ''validate'' ''required,min=1,max=45'' fmempty\<rparr>,
      fldDoc = '''', fldIsExported = True, fldIsEmbedded = False\<rparr>"

section \<open>The configuration\<close>

lemma includeLoop_iff: "includeLoop ts name \<longleftrightarrow> name \<in> set ts"
  by (induction ts) auto

lemma excludeLoop_iff: "excludeLoop ts name \<longleftrightarrow> name \<notin> set ts"
  by (induction ts) auto

lemma ShouldIncludeType_iff:
  "ShouldIncludeType c name isExported \<longleftrightarrow>
     (ExportedOnly (cfgOptions c) \<longrightarrow> isExported)
     \<and> (IncludeTypes (cfgOptions c) \<noteq> [] \<longrightarrow> name \<in> set (IncludeTypes (cfgOptions c)))
     \<and> name \<notin> set (ExcludeTypes (cfgOptions c))"
  by (auto simp: ShouldIncludeType_def includeLoop_iff excludeLoop_iff)

text \<open>
  C5. Merging a loaded document into a configuration whose table is not nil (as that of
  every configuration made by \<open>New\<close>) succeeds; afterwards \<open>ExportedOnly\<close> is the loaded
  document's value, whatever the configuration held, and \<open>PerType\<close> is true exactly
  when it was true on either side.
\<close>

theorem merge_options:
  "TypeMappings c \<noteq> None \<Longrightarrow>
     \<exists>c'. merge c loaded = Inr c'
        \<and> ExportedOnly (cfgOptions c') = ExportedOnly (cfgOptions loaded)
        \<and> PerType (cfgOptions c') = (PerType (cfgOptions c) \<or> PerType (cfgOptions loaded))"
  by (auto simp: merge_def mergeMappings_def mergeOptions_def Let_def split: option.splits)

text \<open>
  The defaults have \<open>ExportedOnly\<close> set; merged with a document that does not mention
  it, they lose it.
\<close>

theorem merge_options_witness:
  "TypeMappings New \<noteq> None \<and> ExportedOnly (cfgOptions New) \<and>
   (\<exists>c'. merge New overrideDoc = Inr c'
        \<and> ExportedOnly (cfgOptions c') = False
        \<and> PerType (cfgOptions c') = False)"
proof -
  have h: "TypeMappings New \<noteq> None" by (simp add: New_def)
  show ?thesis
    using h merge_options [OF h, of overrideDoc]
    by (simp add: New_def DefaultOptions_def overrideDoc_def)
qed

text \<open>
  C7. The inclusion decision is false for an unexported name whenever \<open>ExportedOnly\<close>
  is set, whatever the lists hold; it is false for a name missing from a non-empty include
  list; it is false for a name on the exclude list, whatever the other two checks say; and
  with \<^verbatim>\<open>User\<close> as the only included and the only excluded name, \<^verbatim>\<open>User\<close> is not
  included.
\<close>

theorem ShouldIncludeType_checks:
  "(ExportedOnly (cfgOptions c) \<longrightarrow> \<not> ShouldIncludeType c name False)
   \<and> (IncludeTypes (cfgOptions c) \<noteq> [] \<and> name \<notin> set (IncludeTypes (cfgOptions c))
        \<longrightarrow> \<not> ShouldIncludeType c name isExported)
   \<and> (name \<in> set (ExcludeTypes (cfgOptions c)) \<longrightarrow> \<not> ShouldIncludeType c name isExported)
   \<and> (IncludeTypes (cfgOptions c) = [''User''] \<and> ExcludeTypes (cfgOptions c) = [''User'']
        \<longrightarrow> \<not> ShouldIncludeType c ''User'' True)"
  by (simp add: ShouldIncludeType_def includeLoop_iff excludeLoop_iff)

theorem ShouldIncludeType_checks_witness:
  "\<not> ShouldIncludeType gateCfg ''Internal'' False
   \<and> \<not> ShouldIncludeType gateCfg ''Internal'' True
   \<and> \<not> ShouldIncludeType gateCfg ''User'' True"
proof -
  have h1: "ExportedOnly (cfgOptions gateCfg)" by (simp add: gateCfg_def)
  have h2: "IncludeTypes (cfgOptions gateCfg) \<noteq> []
            \<and> ''Internal'' \<notin> set (IncludeTypes (cfgOptions gateCfg))"
    by (simp add: gateCfg_def)
  have h3: "''User'' \<in> set (ExcludeTypes (cfgOptions gateCfg))" by (simp add: gateCfg_def)
  have h4: "IncludeTypes (cfgOptions gateCfg) = [''User'']
            \<and> ExcludeTypes (cfgOptions gateCfg) = [''User'']"
    by (simp add: gateCfg_def)
  from h1 h2 ShouldIncludeType_checks [of gateCfg "''Internal''" True]
  have "\<not> ShouldIncludeType gateCfg ''Internal'' False
        \<and> \<not> ShouldIncludeType gateCfg ''Internal'' True"
    by blast
  moreover from h3 h4 ShouldIncludeType_checks [of gateCfg "''User''" True]
  have "\<not> ShouldIncludeType gateCfg ''User'' True" by blast
  ultimately show ?thesis by blast
qed

section \<open>The type mapping\<close>

lemma MapType_upd_drop:
  "MapType (c\<lparr>TypeMappings := Some (fmupd k k m)\<rparr>)
     = MapType (c\<lparr>TypeMappings := Some (fmdrop k m)\<rparr>)"
  by (auto simp: MapType_def fun_eq_iff split: option.splits)

lemma mapType_cong_MapType:
  "MapType c1 = MapType c2 \<Longrightarrow> mapType c1 t = mapType c2 t"
  by (induction c1 t rule: mapType.induct) (simp split: option.splits)

text \<open>
  C2. The lookups of \<open>mapType\<close> are tried in order and the first that succeeds gives
  the result, a lookup succeeding when the table's answer differs from the key: the raw
  spelling first; then qualifier, dot and name, only when the qualifier is not empty;
  then the bare name. Under the table that maps \<^verbatim>\<open>pkg.Decimal\<close> to \<^verbatim>\<open>string-a\<close> and
  \<^verbatim>\<open>Decimal\<close> to \<^verbatim>\<open>string-b\<close>, a reference with raw spelling \<^verbatim>\<open>pkg.Decimal\<close>,
  qualifier \<^verbatim>\<open>pkg\<close> and name \<^verbatim>\<open>Decimal\<close> is mapped to \<^verbatim>\<open>string-a\<close>.
\<close>

theorem mapType_priority:
  "(MapType cfg (refRaw t) \<noteq> refRaw t \<longrightarrow> mapType cfg t = MapType cfg (refRaw t))
   \<and> (MapType cfg (refRaw t) = refRaw t \<and> refPackage t \<noteq> ''''
        \<and> MapType cfg (refPackage t @ ''.'' @ refName t) \<noteq> refPackage t @ ''.'' @ refName t
        \<longrightarrow> mapType cfg t = MapType cfg (refPackage t @ ''.'' @ refName t))
   \<and> (MapType cfg (refRaw t) = refRaw t
        \<and> (refPackage t = ''''
            \<or> MapType cfg (refPackage t @ ''.'' @ refName t) = refPackage t @ ''.'' @ refName t)
        \<and> MapType cfg (refName t) \<noteq> refName t
        \<longrightarrow> mapType cfg t = MapType cfg (refName t))
   \<and> (TypeMappings cfg = Some (fmap_of_list [(''pkg.Decimal'', ''string-a''),
                                               (''Decimal'', ''string-b'')])
        \<and> refRaw t = ''pkg.Decimal'' \<and> refPackage t = ''pkg'' \<and> refName t = ''Decimal''
        \<longrightarrow> mapType cfg t = ''string-a'')"
  by (cases t) (simp add: MapType_def)

text \<open>
  Four references under the table of the example: one found by its raw spelling, one by
  qualifier and name, one by its bare name, and one with an empty qualifier, for which
  the second lookup is not made.
\<close>

theorem mapType_priority_witness:
  "mapType decimalCfg (TypeRef KindNamed ''Decimal'' ''pkg'' None None None ''pkg.Decimal'')
     = ''string-a''
   \<and> mapType decimalCfg (TypeRef KindNamed ''Decimal'' ''pkg'' None None None ''p.Decimal'')
     = ''string-a''
   \<and> mapType decimalCfg (TypeRef KindNamed ''Decimal'' ''dec'' None None None ''dec.Decimal'')
     = ''string-b''
   \<and> mapType decimalCfg (TypeRef KindNamed ''Decimal'' '''' None None None ''.Decimal'')
     = ''string-b''"
proof -
  let ?t1 = "TypeRef KindNamed ''Decimal'' ''pkg'' None None None ''pkg.Decimal''"
  let ?t2 = "TypeRef KindNamed ''Decimal'' ''pkg'' None None None ''p.Decimal''"
  let ?t3 = "TypeRef KindNamed ''Decimal'' ''dec'' None None None ''dec.Decimal''"
  let ?t4 = "TypeRef KindNamed ''Decimal'' '''' None None None ''.Decimal''"
  have h1: "TypeMappings decimalCfg
              = Some (fmap_of_list [(''pkg.Decimal'', ''string-a''), (''Decimal'', ''string-b'')])
        \<and> refRaw ?t1 = ''pkg.Decimal'' \<and> refPackage ?t1 = ''pkg'' \<and> refName ?t1 = ''Decimal''"
    by (simp add: decimalCfg_def)
  have h2: "MapType decimalCfg (refRaw ?t2) = refRaw ?t2 \<and> refPackage ?t2 \<noteq> ''''
        \<and> MapType decimalCfg (refPackage ?t2 @ ''.'' @ refName ?t2)
            \<noteq> refPackage ?t2 @ ''.'' @ refName ?t2"
    by (simp add: MapType_def decimalCfg_def)
  have h3: "MapType decimalCfg (refRaw ?t3) = refRaw ?t3
        \<and> (refPackage ?t3 = ''''
            \<or> MapType decimalCfg (refPackage ?t3 @ ''.'' @ refName ?t3)
                = refPackage ?t3 @ ''.'' @ refName ?t3)
        \<and> MapType decimalCfg (refName ?t3) \<noteq> refName ?t3"
    by (simp add: MapType_def decimalCfg_def)
  have h4: "MapType decimalCfg (refRaw ?t4) = refRaw ?t4
        \<and> (refPackage ?t4 = ''''
            \<or> MapType decimalCfg (refPackage ?t4 @ ''.'' @ refName ?t4)
                = refPackage ?t4 @ ''.'' @ refName ?t4)
        \<and> MapType decimalCfg (refName ?t4) \<noteq> refName ?t4"
    by (simp add: MapType_def decimalCfg_def)
  from h1 mapType_priority [of decimalCfg ?t1]
  have r1: "mapType decimalCfg ?t1 = ''string-a''" by blast
  from h2 mapType_priority [of decimalCfg ?t2]
  have "mapType decimalCfg ?t2 = MapType decimalCfg (refPackage ?t2 @ ''.'' @ refName ?t2)"
    by blast
  then have r2: "mapType decimalCfg ?t2 = ''string-a''"
    by (simp add: MapType_def decimalCfg_def)
  from h3 mapType_priority [of decimalCfg ?t3]
  have "mapType decimalCfg ?t3 = MapType decimalCfg (refName ?t3)" by blast
  then have r3: "mapType decimalCfg ?t3 = ''string-b''"
    by (simp add: MapType_def decimalCfg_def)
  from h4 mapType_priority [of decimalCfg ?t4]
  have "mapType decimalCfg ?t4 = MapType decimalCfg (refName ?t4)" by blast
  then have r4: "mapType decimalCfg ?t4 = ''string-b''"
    by (simp add: MapType_def decimalCfg_def)
  from r1 r2 r3 r4 show ?thesis by blast
qed

text \<open>
  C6. An entry of the table whose value is its own key counts as no entry: with the
  entry, \<open>mapType\<close> gives on every reference what it gives with the key removed, so the
  lookup falls through to the next level. A slice of \<^verbatim>\<open>string\<close>, under the table that
  maps \<^verbatim>\<open>string\<close> to \<^verbatim>\<open>string\<close>, is resolved by the structural rule to
  \<^verbatim>\<open>string[]\<close>.
\<close>

theorem mapType_identity_entry:
  "mapType (cfg\<lparr>TypeMappings := Some (fmupd k k tbl)\<rparr>) t
     = mapType (cfg\<lparr>TypeMappings := Some (fmdrop k tbl)\<rparr>) t
   \<and> mapType (cfg\<lparr>TypeMappings := Some (fmap_of_list [(''string'', ''string'')])\<rparr>)
        (TypeRef KindSlice '''' '''' (Some (TypeRef KindBasic ''string'' '''' None None None ''string''))
           None None ''[]string'')
     = ''string[]''"
proof
  show "mapType (cfg\<lparr>TypeMappings := Some (fmupd k k tbl)\<rparr>) t
          = mapType (cfg\<lparr>TypeMappings := Some (fmdrop k tbl)\<rparr>) t"
    by (rule mapType_cong_MapType) (rule MapType_upd_drop)
  show "mapType (cfg\<lparr>TypeMappings := Some (fmap_of_list [(''string'', ''string'')])\<rparr>)
        (TypeRef KindSlice '''' '''' (Some (TypeRef KindBasic ''string'' '''' None None None ''string''))
           None None ''[]string'')
     = ''string[]''"
    by (simp add: MapType_def)
qed

section \<open>The extractor\<close>

text \<open>
  What \<open>extractFields\<close> makes of an entry that binds no name: one embedded field, named
  by the name of the converted type expression.
\<close>

lemma fieldsOfEntry_embedded:
  "astNames f = [] \<Longrightarrow>
   \<exists>fld. fieldsOfEntry Lookup f = [fld] \<and> fldIsEmbedded fld
        \<and> fldName fld = refName (typeRefFromExpr (astType f))"
  by (simp add: fieldsOfEntry_def Let_def)

text \<open>
  C3. The embedded entry \<^verbatim>\<open>*T\<close> is extracted as an embedded field, but its name is
  empty, not \<^verbatim>\<open>T\<close>: the conversion of a pointer expression sets no name, and
  \<open>extractFields\<close> takes the converted reference's name as it is.
\<close>

theorem extractFields_embedded_pointer:
  "extractFields (\<lambda>raw key. None)
     (Some [\<lparr>astNames = [], astType = StarExpr (Ident ''T''), astTag = None, astDoc = None\<rparr>])
   = [\<lparr>fldName = '''',
       fldType = TypeRef KindPointer '''' '''' (Some (TypeRef KindBasic ''T'' '''' None None None ''T''))
                   None None ''*T'',
       fldTag = \<lparr>tagRaw = '''', tagValues = fmempty\<rparr>,
       fldDoc = '''', fldIsExported = False, fldIsEmbedded = True\<rparr>]"
  by (simp add: extractFields_def fieldsOfEntry_def parseTag_def commentText_def IsExported_def
        Let_def)

text \<open>A channel type is not converted to a reference named \<^verbatim>\<open>unknown\<close>.\<close>

theorem typeRefFromExpr_chan_counterexample:
  "refName (typeRefFromExpr (ChanType (Ident ''int''))) \<noteq> ''unknown''"
  by simp

text \<open>
  C4, amended. The conversion is a total function with no failing case. A channel type
  becomes a basic reference named \<^verbatim>\<open>chan\<close> that keeps the converted value type as its
  element; a function type becomes a basic reference named \<^verbatim>\<open>func\<close>; every other
  unrecognised shape becomes the basic reference named \<^verbatim>\<open>unknown\<close>.
\<close>

theorem typeRefFromExpr_fallback:
  "typeRefFromExpr (ChanType v)
     = TypeRef KindBasic ''chan'' '''' (Some (typeRefFromExpr v)) None None
         (''chan '' @ refRaw (typeRefFromExpr v))
   \<and> typeRefFromExpr FuncType = TypeRef KindBasic ''func'' '''' None None None ''func''
   \<and> typeRefFromExpr OtherExpr = TypeRef KindBasic ''unknown'' '''' None None None ''unknown''"
  by (simp add: Let_def)

section \<open>Flattening\<close>

text \<open>The four ways a call of \<open>flattenFields\<close> on a non-empty list goes on.\<close>

lemma flattenFields_Cons_plain:
  "\<not> fldIsEmbedded f \<Longrightarrow>
   flattenFields (f # fs) m seen = (f # fst (flattenFields fs m seen), snd (flattenFields fs m seen))"
  by (simp split: prod.splits)

lemma flattenFields_Cons_seen:
  "fldIsEmbedded f \<Longrightarrow> embeddedTypeName f \<in> seen \<Longrightarrow>
   flattenFields (f # fs) m seen = flattenFields fs m seen"
  by simp

lemma flattenFields_Cons_dead:
  "fldIsEmbedded f \<Longrightarrow> embeddedTypeName f \<notin> seen \<Longrightarrow> \<not> resolves m (embeddedTypeName f) \<Longrightarrow>
   flattenFields (f # fs) m seen = flattenFields fs m (insert (embeddedTypeName f) seen)"
  by (simp add: resolves_def split: option.splits)

lemma flattenFields_Cons_live:
  "fldIsEmbedded f \<Longrightarrow> embeddedTypeName f \<notin> seen \<Longrightarrow>
   fmlookup m (embeddedTypeName f) = Some T \<Longrightarrow> typKind T = KindStruct \<Longrightarrow>
   flattenFields (f # fs) m seen =
     (fst (flattenFields (typFields T) m (insert (embeddedTypeName f) seen))
        @ fst (flattenFields fs m
                 (snd (flattenFields (typFields T) m (insert (embeddedTypeName f) seen))
                    - {embeddedTypeName f})),
      snd (flattenFields fs m
             (snd (flattenFields (typFields T) m (insert (embeddedTypeName f) seen))
                - {embeddedTypeName f})))"
  by (simp split: prod.splits)

declare flattenFields.simps(2) [simp del]

lemma flattenFields_induct [case_names Nil Plain Seen Dead Live]:
  assumes nil: "\<And>m seen. P [] m seen"
    and plain: "\<And>f fs m seen. \<not> fldIsEmbedded f \<Longrightarrow> P fs m seen \<Longrightarrow> P (f # fs) m seen"
    and seen: "\<And>f fs m seen. fldIsEmbedded f \<Longrightarrow> embeddedTypeName f \<in> seen \<Longrightarrow>
                 P fs m seen \<Longrightarrow> P (f # fs) m seen"
    and dead: "\<And>f fs m seen. fldIsEmbedded f \<Longrightarrow> embeddedTypeName f \<notin> seen \<Longrightarrow>
                 \<not> resolves m (embeddedTypeName f) \<Longrightarrow>
                 P fs m (insert (embeddedTypeName f) seen) \<Longrightarrow> P (f # fs) m seen"
    and live: "\<And>f fs m seen T. fldIsEmbedded f \<Longrightarrow> embeddedTypeName f \<notin> seen \<Longrightarrow>
                 fmlookup m (embeddedTypeName f) = Some T \<Longrightarrow> typKind T = KindStruct \<Longrightarrow>
                 P (typFields T) m (insert (embeddedTypeName f) seen) \<Longrightarrow>
                 P fs m (snd (flattenFields (typFields T) m (insert (embeddedTypeName f) seen))
                           - {embeddedTypeName f}) \<Longrightarrow>
                 P (f # fs) m seen"
  shows "P fs m seen"
proof (induction fs m seen rule: flattenFields.induct)
  case (1 typeMap seen)
  show ?case by (rule nil)
next
  case (2 f fs typeMap seen)
  show ?case
  proof (cases "fldIsEmbedded f")
    case False
    with 2(1) show ?thesis by (intro plain) simp_all
  next
    case emb: True
    then have emb': "\<not> \<not> fldIsEmbedded f" by simp
    show ?thesis
    proof (cases "embeddedTypeName f \<in> seen")
      case True
      with emb 2(2) show ?thesis by (intro seen) simp_all
    next
      case notseen: False
      show ?thesis
      proof (cases "fmlookup typeMap (embeddedTypeName f)")
        case None
        then have "\<not> resolves typeMap (embeddedTypeName f)" by (simp add: resolves_def)
        with emb notseen 2(3)[OF emb' notseen None] show ?thesis by (intro dead)
      next
        case (Some T)
        show ?thesis
        proof (cases "typKind T = KindStruct")
          case False
          with Some have "\<not> resolves typeMap (embeddedTypeName f)" by (simp add: resolves_def)
          with emb notseen 2(4)[OF emb' notseen Some] False show ?thesis by (intro dead) simp_all
        next
          case True
          then have str': "\<not> typKind T \<noteq> KindStruct" by simp
          have a: "P (typFields T) typeMap (insert (embeddedTypeName f) seen)"
            by (rule 2(5)[OF emb' notseen Some str'])
          have b: "P fs typeMap
                     (snd (flattenFields (typFields T) typeMap (insert (embeddedTypeName f) seen))
                        - {embeddedTypeName f})"
            by (rule 2(6)[OF emb' notseen Some str', 
                  of "fst (flattenFields (typFields T) typeMap (insert (embeddedTypeName f) seen))"])
               simp
          from emb notseen Some True a b show ?thesis by (rule live)
        qed
      qed
    qed
  qed
qed

lemma flattenFields_marks:
  "seen \<subseteq> snd (flattenFields fs m seen)
   \<and> (\<forall>n \<in> snd (flattenFields fs m seen) - seen. \<not> resolves m n)"
proof (induction fs m seen rule: flattenFields_induct)
  case (Nil m seen)
  show ?case by simp
next
  case (Plain f fs m seen)
  then show ?case by (simp add: flattenFields_Cons_plain)
next
  case (Seen f fs m seen)
  then show ?case by (simp add: flattenFields_Cons_seen)
next
  case (Dead f fs m seen)
  then show ?case by (auto simp: flattenFields_Cons_dead)
next
  case (Live f fs m seen T)
  then show ?case by (auto simp: flattenFields_Cons_live)
qed

lemma flattenFields_dead_marks:
  "\<forall>n \<in> D. \<not> resolves m n \<Longrightarrow>
   flattenFields fs m (seen \<union> D)
     = (fst (flattenFields fs m seen), snd (flattenFields fs m seen) \<union> D)"
proof (induction fs m seen arbitrary: D rule: flattenFields_induct)
  case (Nil m seen)
  show ?case by simp
next
  case (Plain f fs m seen)
  then show ?case by (simp add: flattenFields_Cons_plain)
next
  case (Seen f fs m seen)
  then show ?case by (simp add: flattenFields_Cons_seen)
next
  case (Dead f fs m seen)
  let ?n = "embeddedTypeName f"
  from Dead.prems Dead.hyps(3) have dead': "\<forall>n \<in> insert ?n D. \<not> resolves m n" by simp
  show ?case
  proof (cases "?n \<in> D")
    case True
    then have eq: "seen \<union> D = insert ?n seen \<union> D" by auto
    from True Dead.hyps have "flattenFields (f # fs) m (seen \<union> D) = flattenFields fs m (seen \<union> D)"
      by (simp add: flattenFields_Cons_seen)
    also have "\<dots> = flattenFields fs m (insert ?n seen \<union> D)" using eq by simp
    also have "\<dots> = (fst (flattenFields fs m (insert ?n seen)),
                       snd (flattenFields fs m (insert ?n seen)) \<union> D)"
      by (rule Dead.IH[OF Dead.prems])
    finally show ?thesis using Dead.hyps by (simp add: flattenFields_Cons_dead)
  next
    case False
    with Dead.hyps have "flattenFields (f # fs) m (seen \<union> D)
                           = flattenFields fs m (insert ?n (seen \<union> D))"
      by (simp add: flattenFields_Cons_dead)
    also have "insert ?n (seen \<union> D) = insert ?n seen \<union> D" by auto
    also have "flattenFields fs m (insert ?n seen \<union> D)
                 = (fst (flattenFields fs m (insert ?n seen)),
                    snd (flattenFields fs m (insert ?n seen)) \<union> D)"
      by (rule Dead.IH[OF Dead.prems])
    finally show ?thesis using Dead.hyps by (simp add: flattenFields_Cons_dead)
  qed
next
  case (Live f fs m seen T)
  let ?n = "embeddedTypeName f"
  let ?inner = "flattenFields (typFields T) m (insert ?n seen)"
  from Live.hyps have res: "resolves m ?n" by (simp add: resolves_def)
  with Live.prems have nD: "?n \<notin> D" by auto
  have inner: "flattenFields (typFields T) m (insert ?n (seen \<union> D)) = (fst ?inner, snd ?inner \<union> D)"
    using Live.IH(1)[OF Live.prems] by simp
  have "(snd ?inner \<union> D) - {?n} = (snd ?inner - {?n}) \<union> D" using nD by auto
  then have rest: "flattenFields fs m ((snd ?inner \<union> D) - {?n})
                = (fst (flattenFields fs m (snd ?inner - {?n})),
                   snd (flattenFields fs m (snd ?inner - {?n})) \<union> D)"
    using Live.IH(2)[OF Live.prems] by simp
  from Live.hyps nD have "?n \<notin> seen \<union> D" by simp
  then show ?case
    using Live.hyps inner rest
    by (simp add: flattenFields_Cons_live)
qed

lemma flattenFields_fst_marks:
  "seen \<subseteq> seen' \<Longrightarrow> \<forall>n \<in> seen' - seen. \<not> resolves m n \<Longrightarrow>
   fst (flattenFields fs m seen') = fst (flattenFields fs m seen)"
proof -
  assume a: "seen \<subseteq> seen'" and b: "\<forall>n \<in> seen' - seen. \<not> resolves m n"
  from a have "seen' = seen \<union> (seen' - seen)" by auto
  then have "flattenFields fs m seen' = flattenFields fs m (seen \<union> (seen' - seen))" by simp
  with flattenFields_dead_marks[OF b, of fs seen] show ?thesis by simp
qed

lemma flattenFields_append_pair:
  "flattenFields (xs @ ys) m seen
     = (fst (flattenFields xs m seen) @ fst (flattenFields ys m (snd (flattenFields xs m seen))),
        snd (flattenFields ys m (snd (flattenFields xs m seen))))"
proof (induction xs m seen rule: flattenFields_induct)
  case (Nil m seen)
  show ?case by simp
next
  case (Plain f fs m seen)
  then show ?case by (simp add: flattenFields_Cons_plain)
next
  case (Seen f fs m seen)
  then show ?case by (simp add: flattenFields_Cons_seen)
next
  case (Dead f fs m seen)
  then show ?case by (simp add: flattenFields_Cons_dead)
next
  case (Live f fs m seen T)
  then show ?case by (simp add: flattenFields_Cons_live)
qed

lemma flattenFields_append:
  "fst (flattenFields (xs @ ys) m seen)
     = fst (flattenFields xs m seen) @ fst (flattenFields ys m seen)"
proof -
  have "fst (flattenFields ys m (snd (flattenFields xs m seen))) = fst (flattenFields ys m seen)"
    using flattenFields_marks[of seen xs m] by (intro flattenFields_fst_marks) auto
  then show ?thesis by (simp add: flattenFields_append_pair)
qed

lemma flattenFields_plain:
  "\<forall>f \<in> set fs. \<not> fldIsEmbedded f \<Longrightarrow> flattenFields fs m seen = (fs, seen)"
  by (induction fs) (simp_all add: flattenFields_Cons_plain)

lemma flattenFields_no_embedded:
  "\<forall>f \<in> set (fst (flattenFields fs m seen)). \<not> fldIsEmbedded f"
proof (induction fs m seen rule: flattenFields_induct)
  case (Nil m seen)
  show ?case by simp
next
  case (Plain f fs m seen)
  then show ?case by (simp add: flattenFields_Cons_plain)
next
  case (Seen f fs m seen)
  then show ?case by (simp add: flattenFields_Cons_seen)
next
  case (Dead f fs m seen)
  then show ?case by (simp add: flattenFields_Cons_dead)
next
  case (Live f fs m seen T)
  then show ?case by (auto simp: flattenFields_Cons_live)
qed

lemma flattenFields_single: "fst (flattenFields [f] m seen) = slotFields m seen f"
  by (simp add: flattenFields.simps slotFields_def split: option.splits prod.splits)

lemma flattenFields_concat:
  "fst (flattenFields fs m seen) = concat (map (slotFields m seen) fs)"
proof (induction fs)
  case Nil
  show ?case by simp
next
  case (Cons f fs)
  have "fst (flattenFields ([f] @ fs) m seen)
          = fst (flattenFields [f] m seen) @ fst (flattenFields fs m seen)"
    by (rule flattenFields_append)
  with Cons show ?case by (simp add: flattenFields_single)
qed

lemma embeddedField_simps:
  "fldIsEmbedded (embeddedField e)"
  "embeddedTypeName (embeddedField (Ident n)) = n"
  "n \<noteq> [] \<Longrightarrow> embeddedTypeName (embeddedField (StarExpr (Ident n))) = n"
  by (simp_all add: embeddedField_def fieldsOfEntry_def embeddedTypeName_def Let_def)

lemma plainField_simps: "\<not> fldIsEmbedded (plainField n)"
  by (simp add: plainField_def)

lemma buildTypeMap_snoc: "buildTypeMap (ts @ [t]) = fmupd (typName t) t (buildTypeMap ts)"
  by (simp add: buildTypeMap_def)

lemma buildTypeMap_lookup:
  "distinct (map typName ts) \<Longrightarrow> e \<in> set ts \<Longrightarrow> fmlookup (buildTypeMap ts) (typName e) = Some e"
proof (induction ts rule: rev_induct)
  case Nil
  then show ?case by simp
next
  case (snoc t ts)
  then show ?case by (auto simp: buildTypeMap_snoc)
qed

lemma filterTypes_eq:
  "filterTypes cfg ts = filter (\<lambda>t. ShouldIncludeType cfg (typName t) (typIsExported t)) ts"
  by (induction ts) simp_all

lemma flattenEmbedded_eq:
  "flattenEmbedded ts m =
     map (\<lambda>t. if typKind t \<noteq> KindStruct then t
               else t\<lparr>typFields := fst (flattenFields (typFields t) m {})\<rparr>) ts"
  by (induction ts) simp_all

lemma slotFields_plain_list:
  "\<forall>g \<in> set gs. \<not> fldIsEmbedded g \<Longrightarrow> concat (map (slotFields m seen) gs) = gs"
  by (induction gs) (simp_all add: slotFields_def)

text \<open>
  Flattening a sequence that has been flattened changes nothing: it holds no embedded
  field.
\<close>

lemma flattenFields_flattened:
  "fst (flattenFields (fst (flattenFields flds typeMap seen)) typeMap seen')
     = fst (flattenFields flds typeMap seen)"
  by (simp add: flattenFields_plain flattenFields_no_embedded)

text \<open>
  C1. For every field list, every table of declarations and every set of marked names,
  the arguments are in the domain of \<open>flattenFields\<close>: every chain of recursive calls
  that starts from them is finite, so the call returns, cycles of embeddings included.
  Two calls that each start from an empty \<^verbatim>\<open>seen\<close> map return the same fields: the
  result is a function of the field list and the table, which no call writes. The marks
  a call leaves behind (the names it could not resolve) would not change the fields
  either.
\<close>

theorem flattenFields_terminates:
  "flattenFields_dom (flds, typeMap, seen)
   \<and> (\<forall>first second. first = fst (flattenFields flds typeMap {})
                       \<and> second = fst (flattenFields flds typeMap {}) \<longrightarrow> first = second)
   \<and> fst (flattenFields flds typeMap (snd (flattenFields flds typeMap {})))
       = fst (flattenFields flds typeMap {})"
proof (intro conjI)
  from flattenFields_total show "flattenFields_dom (flds, typeMap, seen)" by blast
  show "\<forall>first second. first = fst (flattenFields flds typeMap {})
                       \<and> second = fst (flattenFields flds typeMap {}) \<longrightarrow> first = second"
    by simp
  show "fst (flattenFields flds typeMap (snd (flattenFields flds typeMap {})))
          = fst (flattenFields flds typeMap {})"
    using flattenFields_marks [of "{}" flds typeMap]
    by (intro flattenFields_fst_marks) auto
qed

text \<open>
  The cycle in which \<^verbatim>\<open>A\<close> embeds \<^verbatim>\<open>B\<close> and \<^verbatim>\<open>B\<close> embeds a pointer to \<^verbatim>\<open>A\<close>:
  flattening the fields of \<^verbatim>\<open>A\<close> returns, with the fields computed below.
\<close>

theorem flattenFields_terminates_witness:
  "flattenFields_dom (typFields (hd cycleTypes), buildTypeMap cycleTypes, {})
   \<and> fst (flattenFields (typFields (hd cycleTypes)) (buildTypeMap cycleTypes) {})
       = [plainField ''a'', plainField ''b'', plainField ''a'']
   \<and> fst (flattenFields (typFields (hd cycleTypes)) (buildTypeMap cycleTypes)
            (snd (flattenFields (typFields (hd cycleTypes)) (buildTypeMap cycleTypes) {})))
       = [plainField ''a'', plainField ''b'', plainField ''a'']"
proof -
  have ev: "fst (flattenFields (typFields (hd cycleTypes)) (buildTypeMap cycleTypes) {})
              = [plainField ''a'', plainField ''b'', plainField ''a'']"
    by (simp add: cycleTypes_def buildTypeMap_def recordDecl_def flattenFields.simps
          embeddedField_simps plainField_simps)
  from flattenFields_terminates [of "typFields (hd cycleTypes)" "buildTypeMap cycleTypes" "{}"] ev
  show ?thesis by simp
qed

text \<open>
  C8. Flattening keeps the order of the fields: the result is the concatenation, in the
  order of the list, of what stands in each field's place, which is the field itself
  when it is not embedded and the recursively flattened fields of the embedded record
  when it is (nothing when the embedded name is on the path or is no record of the
  table). The record with the fields embedded \<^verbatim>\<open>A\<close>, \<^verbatim>\<open>plainB\<close>, embedded \<^verbatim>\<open>*C\<close>,
  where \<^verbatim>\<open>A\<close> has \<^verbatim>\<open>x, y\<close> and \<^verbatim>\<open>C\<close> has \<^verbatim>\<open>z\<close>, flattens to
  \<^verbatim>\<open>x, y, plainB, z\<close>.
\<close>

theorem flattenFields_order:
  "fst (flattenFields flds typeMap seen) = concat (map (slotFields typeMap seen) flds)
   \<and> fst (flattenFields (typFields (hd orderTypes)) (buildTypeMap orderTypes) {})
       = [plainField ''x'', plainField ''y'', plainField ''plainB'', plainField ''z'']"
proof
  show "fst (flattenFields flds typeMap seen) = concat (map (slotFields typeMap seen) flds)"
    by (rule flattenFields_concat)
  show "fst (flattenFields (typFields (hd orderTypes)) (buildTypeMap orderTypes) {})
          = [plainField ''x'', plainField ''y'', plainField ''plainB'', plainField ''z'']"
    by (simp add: orderTypes_def buildTypeMap_def recordDecl_def flattenFields.simps
          embeddedField_simps plainField_simps)
qed

text \<open>
  The same record through the first half of the theorem: the three slots, one after the
  other.
\<close>

theorem flattenFields_order_witness:
  "concat (map (slotFields (buildTypeMap orderTypes) {}) (typFields (hd orderTypes)))
     = [plainField ''x'', plainField ''y'', plainField ''plainB'', plainField ''z'']"
proof -
  note order = flattenFields_order [of "typFields (hd orderTypes)" "buildTypeMap orderTypes" "{}"]
  from order
  have slots: "fst (flattenFields (typFields (hd orderTypes)) (buildTypeMap orderTypes) {})
                 = concat (map (slotFields (buildTypeMap orderTypes) {}) (typFields (hd orderTypes)))"
    by (rule conjunct1)
  from order
  have "fst (flattenFields (typFields (hd orderTypes)) (buildTypeMap orderTypes) {})
          = [plainField ''x'', plainField ''y'', plainField ''plainB'', plainField ''z'']"
    by (rule conjunct2)
  then show ?thesis unfolding slots .
qed

text \<open>
  C10. The table that flattening looks embedded names up in is built from all the
  declarations of the file, whether the filter keeps them or not. So, in a file that
  declares every name once, a record that the filter keeps and that embeds a record
  \<open>e\<close> of the file among its named fields comes out with the fields of \<open>e\<close> in the
  place of the embedded field; nothing is asked of \<open>e\<close> with respect to the filter.
\<close>

theorem embedded_record_outside_filter:
  assumes names: "distinct (map typName (filTypes file))"
    and t: "t \<in> set (filTypes file)" "typKind t = KindStruct"
    and kept: "ShouldIncludeType cfg (typName t) (typIsExported t)"
    and flds: "typFields t = pre @ [f] @ post"
    and plain: "\<forall>g \<in> set (pre @ post). \<not> fldIsEmbedded g"
    and f: "fldIsEmbedded f" "embeddedTypeName f = typName e"
    and e: "e \<in> set (filTypes file)" "typKind e = KindStruct"
    and eplain: "\<forall>g \<in> set (typFields e). \<not> fldIsEmbedded g"
  shows "t\<lparr>typFields := pre @ typFields e @ post\<rparr> \<in> set (GenerateTypes cfg file)"
proof -
  let ?m = "buildTypeMap (filTypes file)"
  have look: "fmlookup ?m (embeddedTypeName f) = Some e"
    using buildTypeMap_lookup[OF names e(1)] f(2) by simp
  have slot: "slotFields ?m {} f = typFields e"
    using look f(1) e(2) flattenFields_plain[OF eplain] by (simp add: slotFields_def)
  from plain have pre: "concat (map (slotFields ?m {}) pre) = pre"
    and post: "concat (map (slotFields ?m {}) post) = post"
    by (simp_all add: slotFields_plain_list)
  have "fst (flattenFields (typFields t) ?m {}) = pre @ typFields e @ post"
    by (simp add: flattenFields_concat flds pre post slot)
  moreover from t(1) kept have "t \<in> set (filterTypes cfg (filTypes file))"
    by (simp add: filterTypes_eq)
  ultimately show ?thesis
    using t(2) by (force simp: GenerateTypes_def flattenEmbedded_eq Let_def)
qed

text \<open>
  Under the defaults only exported declarations are kept. \<^verbatim>\<open>User\<close> embeds the
  unexported \<^verbatim>\<open>base\<close>: \<^verbatim>\<open>base\<close> is filtered out, and its field is in \<^verbatim>\<open>User\<close>.
\<close>

theorem embedded_record_outside_filter_witness:
  "\<not> ShouldIncludeType New ''base'' (IsExported ''base'')
   \<and> recordDecl ''User'' [plainField ''ID'', plainField ''Name'']
       \<in> set (GenerateTypes New filterFile)"
proof -
  let ?t = "recordDecl ''User'' [embeddedField (Ident ''base''), plainField ''Name'']"
  let ?e = "recordDecl ''base'' [plainField ''ID'']"
  have out: "\<not> ShouldIncludeType New ''base'' (IsExported ''base'')"
    by (simp add: ShouldIncludeType_def New_def DefaultOptions_def IsExported_def)
  have names: "distinct (map typName (filTypes filterFile))"
    by (simp add: filterFile_def recordDecl_def)
  have t: "?t \<in> set (filTypes filterFile)" "typKind ?t = KindStruct"
    by (simp_all add: filterFile_def recordDecl_def)
  have kept: "ShouldIncludeType New (typName ?t) (typIsExported ?t)"
    by (simp add: ShouldIncludeType_def New_def DefaultOptions_def IsExported_def recordDecl_def)
  have flds: "typFields ?t = [] @ [embeddedField (Ident ''base'')] @ [plainField ''Name'']"
    by (simp add: recordDecl_def)
  have plain: "\<forall>g \<in> set ([] @ [plainField ''Name'']). \<not> fldIsEmbedded g"
    by (simp add: plainField_simps)
  have f: "fldIsEmbedded (embeddedField (Ident ''base''))"
    "embeddedTypeName (embeddedField (Ident ''base'')) = typName ?e"
    by (simp_all add: embeddedField_simps recordDecl_def)
  have e: "?e \<in> set (filTypes filterFile)" "typKind ?e = KindStruct"
    by (simp_all add: filterFile_def recordDecl_def)
  have eplain: "\<forall>g \<in> set (typFields ?e). \<not> fldIsEmbedded g"
    by (simp add: recordDecl_def plainField_simps)
  from embedded_record_outside_filter [OF names t kept flds plain f e eplain]
  have "recordDecl ''User'' [plainField ''ID'', plainField ''Name'']
          \<in> set (GenerateTypes New filterFile)"
    by (simp add: recordDecl_def)
  with out show ?thesis by blast
qed

section \<open>Validation rules\<close>

lemma Split_no_sep: "sep \<notin> set p \<Longrightarrow> Split p sep = [p]"
  by (induction p) auto

lemma Split_append_sep: "sep \<notin> set p \<Longrightarrow> Split (p @ sep # rest) sep = p # Split rest sep"
  by (induction p) auto

lemma Split_joinComma:
  "ps \<noteq> [] \<Longrightarrow> \<forall>p \<in> set ps. CHR '','' \<notin> set p \<Longrightarrow> Split (joinComma ps) CHR '','' = ps"
proof (induction ps rule: joinComma.induct)
  case 1
  then show ?case by simp
next
  case (2 p)
  then show ?case by (simp add: Split_no_sep)
next
  case (3 p q ps)
  then show ?case by (simp add: Split_append_sep)
qed

lemma TrimSpace_id:
  "s \<noteq> [] \<Longrightarrow> \<not> isSpace (hd s) \<Longrightarrow> \<not> isSpace (last s) \<Longrightarrow> TrimSpace s = s"
proof -
  assume a: "s \<noteq> []" "\<not> isSpace (hd s)" "\<not> isSpace (last s)"
  then have "dropWhile isSpace s = s" by (cases s) auto
  moreover from a have "dropWhile isSpace (rev s) = rev s"
    by (cases "rev s") (auto simp: hd_rev)
  ultimately show ?thesis by (simp add: TrimSpace_def)
qed

lemma Index_absent: "b \<notin> set s \<Longrightarrow> Index s b = - 1"
  by (induction s) (auto simp: Let_def)

lemma Index_first: "b \<notin> set n \<Longrightarrow> Index (n @ b # v) b = int (length n)"
  by (induction n) (auto simp: Let_def)

lemma not_isSpace_eq: "\<not> isSpace CHR ''=''"
  by (simp add: isSpace_def)

lemma rulesLoop_step:
  assumes "wellFormedRule r"
  shows "rulesLoop (writeRule r # ps) = ruleOf r # rulesLoop ps"
proof (cases r)
  case (Pair name vo)
  show ?thesis
  proof (cases vo)
    case None
    with Pair assms have "TrimSpace name = name" by (simp add: TrimSpace_id)
    moreover from None Pair assms have "Index name CHR ''='' = - 1" by (simp add: Index_absent)
    ultimately show ?thesis using None Pair assms by (simp add: Let_def)
  next
    case (Some v)
    let ?part = "name @ ''='' @ v"
    from Some Pair assms have ne: "name \<noteq> []" and hd: "\<not> isSpace (hd name)" by simp_all
    from Some Pair assms have lst: "\<not> isSpace (last ?part)"
      by (cases "v = []") (simp_all add: not_isSpace_eq)
    from ne hd have hd': "\<not> isSpace (hd ?part)" by simp
    have trim: "TrimSpace ?part = ?part"
      by (rule TrimSpace_id) (use ne hd' lst in simp_all)
    from Some Pair assms have idx: "Index ?part CHR ''='' = int (length name)"
      by (simp add: Index_first)
    from ne have pos: "int (length name) > 0" by simp
    have nat1: "nat (int (length name) + 1) = Suc (length name)" by simp
    show ?thesis
      using Some Pair trim idx pos ne
      by (simp add: Let_def nat1 del: append.simps)
  qed
qed

lemma rulesLoop_written:
  "\<forall>r \<in> set rules. wellFormedRule r \<Longrightarrow> rulesLoop (map writeRule rules) = map ruleOf rules"
  by (induction rules) (simp_all add: rulesLoop_step del: rulesLoop.simps(2))

lemma writeRule_no_comma: "wellFormedRule r \<Longrightarrow> CHR '','' \<notin> set (writeRule r)"
  by (cases r rule: writeRule.cases) auto

lemma joinComma_empty: "joinComma ps = '''' \<Longrightarrow> ps = [] \<or> ps = ['''']"
  by (induction ps rule: joinComma.induct) auto

lemma writeRule_nonempty: "wellFormedRule r \<Longrightarrow> writeRule r \<noteq> ''''"
  by (cases r rule: writeRule.cases) auto

text \<open>
  C9. When the \<^verbatim>\<open>validate\<close> value of a field is a comma-separated list of well-formed
  rules, each written as a name or as a name, \<^verbatim>\<open>=\<close> and a value,
  \<open>parseValidateTag\<close> returns the rules in the order written, each name with its
  value, the value empty where no \<^verbatim>\<open>=\<close> is written.
\<close>

theorem parseValidateTag_rules:
  assumes wf: "\<forall>r \<in> set rules. wellFormedRule r"
    and tag: "fmlookup (tagValues (fldTag field)) ''validate'' = Some (joinComma (map writeRule rules))"
  shows "parseValidateTag field = map ruleOf rules"
proof (cases "rules = []")
  case True
  with tag show ?thesis by (simp add: parseValidateTag_def)
next
  case False
  let ?ps = "map writeRule rules"
  from False have ne: "?ps \<noteq> []" by simp
  from wf have nocomma: "\<forall>p \<in> set ?ps. CHR '','' \<notin> set p"
    by (auto dest: writeRule_no_comma)
  from wf have "\<forall>p \<in> set ?ps. p \<noteq> ''''" by (auto dest: writeRule_nonempty)
  with ne joinComma_empty[of ?ps] have nonempty: "joinComma ?ps \<noteq> ''''" by auto
  have "parseValidateTag field = rulesLoop (Split (joinComma ?ps) CHR '','')"
    using tag nonempty by (simp add: parseValidateTag_def)
  also have "\<dots> = rulesLoop ?ps" using Split_joinComma[OF ne nocomma] by simp
  also have "\<dots> = map ruleOf rules" by (rule rulesLoop_written[OF wf])
  finally show ?thesis .
qed

text \<open>
  The value \<^verbatim>\<open>required,min=1,max=45\<close> gives \<^verbatim>\<open>required\<close> without value, then
  \<^verbatim>\<open>min\<close> with 1, then \<^verbatim>\<open>max\<close> with 45.
\<close>

theorem parseValidateTag_rules_witness:
  "parseValidateTag validatedField
     = [\<lparr>ruleName = ''required'', ruleValue = ''''\<rparr>,
        \<lparr>ruleName = ''min'', ruleValue = ''1''\<rparr>,
        \<lparr>ruleName = ''max'', ruleValue = ''45''\<rparr>]"
proof -
  let ?rules = "[(''required'', None), (''min'', Some ''1''), (''max'', Some ''45'')]"
  have wf: "\<forall>r \<in> set ?rules. wellFormedRule r"
    by (simp add: ascii_def isSpace_def)
  have tag: "fmlookup (tagValues (fldTag validatedField)) ''validate''
               = Some (joinComma (map writeRule ?rules))"
    by (simp add: validatedField_def)
  from parseValidateTag_rules [OF wf tag] show ?thesis by simp
qed

end
